theory Spec2Isabelle
  imports Main "HOL-Library.Word"
begin

section \<open>The libretro host of MacMAME (Core/LibretroCore.c)\<close>

text \<open>
  The host keeps all of its state in file-level statics. The model collects them in one
  record and passes it through every operation. The loaded module is third-party code;
  it appears here as a table of exported entry points together with what each entry
  answers, and the dynamic loader and the allocator appear as an environment record.
\<close>

subsection \<open>Machine types\<close>

text \<open>
  \<^verbatim>\<open>unsigned\<close> and \<^verbatim>\<open>int\<close> are 32 bits wide, \<^verbatim>\<open>size_t\<close> is 64 bits wide (the
  host is built for 64-bit macOS), \<^verbatim>\<open>int16_t\<close> is 16 bits wide. A \<^verbatim>\<open>double\<close> is
  only ever stored and handed back by the functions modelled here, so it is kept as its
  64-bit IEEE-754 pattern.
\<close>

type_synonym uint = "32 word"
type_synonym cint = "32 word"
type_synonym size_t = "64 word"
type_synonym int16 = "16 word"
type_synonym byte = "8 word"
type_synonym double = "64 word"

text \<open>
  A pointer into memory owned by the module is the view of the memory that starts at
  it (\<open>src i\<close> is the \<open>i\<close>-th element behind the pointer). Buffers owned by the host are
  lists whose length is the allocated size; a null pointer is \<open>None\<close>.
\<close>

type_synonym 'a mem = "nat \<Rightarrow> 'a"

definition MAX_AUDIO_FRAMES :: size_t where
  "MAX_AUDIO_FRAMES = 8192"

definition RETRO_PIXEL_FORMAT_XRGB8888 :: cint where
  "RETRO_PIXEL_FORMAT_XRGB8888 = 1"

definition RETRO_ENVIRONMENT_GET_CAN_DUPE :: uint where
  "RETRO_ENVIRONMENT_GET_CAN_DUPE = 3"

definition RETRO_ENVIRONMENT_GET_SYSTEM_DIRECTORY :: uint where
  "RETRO_ENVIRONMENT_GET_SYSTEM_DIRECTORY = 9"

definition RETRO_ENVIRONMENT_SET_PIXEL_FORMAT :: uint where
  "RETRO_ENVIRONMENT_SET_PIXEL_FORMAT = 10"

definition RETRO_ENVIRONMENT_GET_VARIABLE :: uint where
  "RETRO_ENVIRONMENT_GET_VARIABLE = 15"

definition RETRO_ENVIRONMENT_SET_VARIABLES :: uint where
  "RETRO_ENVIRONMENT_SET_VARIABLES = 16"

definition RETRO_ENVIRONMENT_GET_VARIABLE_UPDATE :: uint where
  "RETRO_ENVIRONMENT_GET_VARIABLE_UPDATE = 17"

definition RETRO_ENVIRONMENT_SET_SUPPORT_NO_GAME :: uint where
  "RETRO_ENVIRONMENT_SET_SUPPORT_NO_GAME = 18"

definition RETRO_ENVIRONMENT_GET_LOG_INTERFACE :: uint where
  "RETRO_ENVIRONMENT_GET_LOG_INTERFACE = 27"

definition RETRO_ENVIRONMENT_GET_CORE_ASSETS_DIRECTORY :: uint where
  "RETRO_ENVIRONMENT_GET_CORE_ASSETS_DIRECTORY = 30"

definition RETRO_ENVIRONMENT_GET_SAVE_DIRECTORY :: uint where
  "RETRO_ENVIRONMENT_GET_SAVE_DIRECTORY = 31"

definition RETRO_ENVIRONMENT_SET_CORE_OPTIONS_V2 :: uint where
  "RETRO_ENVIRONMENT_SET_CORE_OPTIONS_V2 = 67"

definition RETRO_DEVICE_JOYPAD :: uint where
  "RETRO_DEVICE_JOYPAD = 1"

subsection \<open>Structures of the module ABI\<close>

text \<open>\<^verbatim>\<open>struct retro_system_info\<close>; a \<^verbatim>\<open>const char *\<close> is a string or null.\<close>

record retro_system_info =
  library_name :: "string option"
  library_version :: "string option"
  valid_extensions :: "string option"
  need_fullpath :: bool
  block_extract :: bool

text \<open>\<^verbatim>\<open>struct retro_system_av_info\<close>, geometry and timing flattened.\<close>

record retro_system_av_info =
  base_width :: uint
  base_height :: uint
  max_width :: uint
  max_height :: uint
  aspect_ratio :: "32 word"
  fps :: double
  sample_rate :: double

text \<open>
  What the module does with the callbacks it was handed, while one of its entry points
  runs: one constructor per host callback that touches the host's state, with the
  arguments of the call. \<open>Environment cmd arg\<close> carries in \<open>arg\<close> the \<^verbatim>\<open>int\<close> behind the
  data pointer, which is what the one reading command (set-pixel-format) looks at.
\<close>

datatype callback =
    Environment uint cint
  | Video_refresh "byte mem option" uint uint size_t
  | Audio_sample int16 int16
  | Audio_sample_batch "int16 mem" size_t

text \<open>
  The export table of a module, one field per symbol that \<^verbatim>\<open>LOAD_SYM\<close> resolves (21 in
  all). A symbol that the module does not export resolves to null: \<open>False\<close> or \<open>None\<close>.
  An exported entry carries what the host can observe of it: the value it returns and,
  for the three entries inside which callbacks fire (initialize, load-content, run), the
  callbacks it makes.
\<close>

record module =
  retro_set_environment :: bool
  retro_set_video_refresh :: bool
  retro_set_audio_sample :: bool
  retro_set_audio_sample_batch :: bool
  retro_set_input_poll :: bool
  retro_set_input_state :: bool
  retro_init :: "callback list option"
  retro_deinit :: bool
  retro_api_version :: "uint option"
  retro_get_system_info :: "retro_system_info option"
  retro_get_system_av_info :: "retro_system_av_info option"
  retro_set_controller_port_device :: bool
  retro_reset :: bool
  retro_run :: "callback list option"
  retro_serialize_size :: "size_t option"
  retro_serialize :: "(size_t \<Rightarrow> bool) option"
  retro_unserialize :: "(byte list \<Rightarrow> size_t \<Rightarrow> bool) option"
  retro_load_game :: "(string \<Rightarrow> callback list \<times> bool) option"
  retro_unload_game :: bool
  retro_get_memory_data :: "(uint \<Rightarrow> byte list option) option"
  retro_get_memory_size :: "(uint \<Rightarrow> size_t) option"

text \<open>All 21 function pointers null, as the statics are before the first load.\<close>

definition no_module :: module where
  "no_module = \<lparr>
     retro_set_environment = False, retro_set_video_refresh = False,
     retro_set_audio_sample = False, retro_set_audio_sample_batch = False,
     retro_set_input_poll = False, retro_set_input_state = False,
     retro_init = None, retro_deinit = False, retro_api_version = None,
     retro_get_system_info = None, retro_get_system_av_info = None,
     retro_set_controller_port_device = False, retro_reset = False,
     retro_run = None, retro_serialize_size = None, retro_serialize = None,
     retro_unserialize = None, retro_load_game = None, retro_unload_game = False,
     retro_get_memory_data = None, retro_get_memory_size = None \<rparr>"

subsection \<open>The environment: dynamic loader and allocator\<close>

text \<open>
  \<open>dlopen e path\<close> is the module image found at \<open>path\<close>, or \<open>None\<close> when the open
  fails. \<open>malloc_ok e n\<close> tells whether a request for \<open>n\<close> bytes is granted. What a fresh
  block holds is indeterminate in C; \<open>fresh8\<close> and \<open>fresh16\<close> stand for it.
\<close>

record env =
  dlopen :: "string \<Rightarrow> module option"
  malloc_ok :: "size_t \<Rightarrow> bool"
  fresh8 :: "byte mem"
  fresh16 :: "int16 mem"

definition malloc8 :: "env \<Rightarrow> size_t \<Rightarrow> byte list option" where
  "malloc8 e n = (if malloc_ok e n then Some (map (fresh8 e) [0..<unat n]) else None)"

text \<open>A block of \<open>n\<close> bytes seen as an array of \<^verbatim>\<open>int16_t\<close>.\<close>

definition malloc16 :: "env \<Rightarrow> size_t \<Rightarrow> int16 list option" where
  "malloc16 e n = (if malloc_ok e n then Some (map (fresh16 e) [0..<unat n div 2]) else None)"

text \<open>
  \<^verbatim>\<open>memcpy(&dst[off], src, n elements)\<close>. In C the call is undefined when
  \<open>off + n\<close> exceeds the length of \<open>dst\<close>; the list equation below is meaningful for the
  calls that stay inside \<open>dst\<close>, and every statement about it carries that bound.
\<close>

definition memcpy :: "'a list \<Rightarrow> nat \<Rightarrow> 'a mem \<Rightarrow> nat \<Rightarrow> 'a list" where
  "memcpy dst off src n = take off dst @ map src [0..<n] @ drop (off + n) dst"

subsection \<open>Calls that leave the host\<close>

text \<open>
  Calls into the loader, the allocator and the module have no effect on the host's
  statics beyond what they return and the callbacks they trigger. To be able to say that
  such a call was made, the state carries the list of them in order: \<open>Malloc n\<close> is a
  request for \<open>n\<close> bytes, \<open>Free_bytes b\<close> and \<open>Free_samples b\<close> are \<^verbatim>\<open>free\<close> applied to
  the pointer to block \<open>b\<close> (to a null pointer when \<open>b\<close> is \<open>None\<close>).
\<close>

datatype entry =
    Set_environment | Set_video_refresh | Set_audio_sample | Set_audio_sample_batch
  | Set_input_poll | Set_input_state | Init | Deinit | Api_version | Get_system_info
  | Get_system_av_info | Set_controller_port_device uint uint | Reset | Run
  | Serialize_size | Serialize | Unserialize | Load_game string | Unload_game
  | Get_memory_data | Get_memory_size

datatype event =
    Dlopen string | Dlclose | Call entry
  | Malloc size_t | Free_bytes "byte list option" | Free_samples "int16 list option"

subsection \<open>Static state\<close>

record state =
  core_handle :: "module option"
  game_loaded :: bool
  pixel_format :: cint
  system_directory :: string
  save_directory :: string
  video_width :: uint
  video_height :: uint
  video_pitch :: size_t
  video_fps :: double
  framebuffer :: "byte list option"
  framebuffer_size :: size_t
  audio_sample_rate :: double
  audio_buffer :: "int16 list option"
  audio_frames :: size_t
  core :: module
  system_info :: retro_system_info
  trace :: "event list"

text \<open>The bit patterns of the doubles \<^verbatim>\<open>60.0\<close> and \<^verbatim>\<open>44100.0\<close>.\<close>

definition double_60 :: double where
  "double_60 = 0x404E000000000000"

definition double_44100 :: double where
  "double_44100 = 0x40E5888000000000"

definition zero_system_info :: retro_system_info where
  "zero_system_info = \<lparr> library_name = None, library_version = None,
     valid_extensions = None, need_fullpath = False, block_extract = False \<rparr>"

text \<open>The statics as their initialisers leave them.\<close>

definition initial_state :: state where
  "initial_state = \<lparr>
     core_handle = None, game_loaded = False,
     pixel_format = RETRO_PIXEL_FORMAT_XRGB8888,
     system_directory = [], save_directory = [],
     video_width = 0, video_height = 0, video_pitch = 0, video_fps = double_60,
     framebuffer = None, framebuffer_size = 0,
     audio_sample_rate = double_44100, audio_buffer = None, audio_frames = 0,
     core = no_module, system_info = zero_system_info, trace = [] \<rparr>"

definition emit :: "event \<Rightarrow> state \<Rightarrow> state" where
  "emit ev s = s\<lparr>trace := trace s @ [ev]\<rparr>"

subsection \<open>Callback implementations\<close>

text \<open>
  \<^verbatim>\<open>video_refresh_callback\<close>. Null data is a repeated frame and changes nothing.
  Otherwise the geometry is stored, \<open>height * pitch\<close> is computed in \<^verbatim>\<open>size_t\<close>
  (the 32-bit height is widened first, the product wraps at 64 bits), the buffer is
  freed and a new one requested when the recorded size is too small (the requested size
  is recorded whatever the allocator answers), and the frame is copied if there is a
  buffer. The
  bytes-per-pixel value that the source also computes is never used.
\<close>

definition video_refresh_callback ::
    "env \<Rightarrow> byte mem option \<Rightarrow> uint \<Rightarrow> uint \<Rightarrow> size_t \<Rightarrow> state \<Rightarrow> state" where
  "video_refresh_callback e data width height pitch s =
     (case data of
        None \<Rightarrow> s
      | Some src \<Rightarrow>
          let s1 = s\<lparr>video_width := width, video_height := height, video_pitch := pitch\<rparr>;
              required_size = (ucast height :: size_t) * pitch;
              s2 = (if required_size > framebuffer_size s1
                    then (emit (Malloc required_size) (emit (Free_bytes (framebuffer s1)) s1))
                           \<lparr>framebuffer := malloc8 e required_size,
                            framebuffer_size := required_size\<rparr>
                    else s1)
          in case framebuffer s2 of
               None \<Rightarrow> s2
             | Some fb \<Rightarrow> s2\<lparr>framebuffer := Some (memcpy fb 0 src (unat required_size))\<rparr>)"

text \<open>\<^verbatim>\<open>audio_sample_callback\<close>: one stereo pair, if there is room and a buffer.\<close>

definition audio_sample_callback :: "int16 \<Rightarrow> int16 \<Rightarrow> state \<Rightarrow> state" where
  "audio_sample_callback left right s =
     (if audio_frames s < MAX_AUDIO_FRAMES then
        (case audio_buffer s of
           None \<Rightarrow> s
         | Some buf \<Rightarrow>
             s\<lparr>audio_buffer :=
                  Some (buf[unat (audio_frames s * 2) := left,
                            unat (audio_frames s * 2 + 1) := right]),
                audio_frames := audio_frames s + 1\<rparr>)
      else s)"

text \<open>
  \<^verbatim>\<open>audio_sample_batch_callback\<close>. All arithmetic is in \<^verbatim>\<open>size_t\<close>. The copy
  moves \<open>to_copy * 2 * sizeof(int16_t)\<close> bytes, that is half as many samples.
\<close>

definition audio_sample_batch_callback :: "int16 mem \<Rightarrow> size_t \<Rightarrow> state \<Rightarrow> size_t \<times> state" where
  "audio_sample_batch_callback data frames s =
     (case audio_buffer s of
        None \<Rightarrow> (0, s)
      | Some buf \<Rightarrow>
          let to_copy = (if audio_frames s + frames > MAX_AUDIO_FRAMES
                         then MAX_AUDIO_FRAMES - audio_frames s else frames)
          in if to_copy > 0
             then (to_copy,
                   s\<lparr>audio_buffer :=
                        Some (memcpy buf (unat (audio_frames s * 2)) data
                                (unat (to_copy * 2 * 2) div 2)),
                      audio_frames := audio_frames s + to_copy\<rparr>)
             else (to_copy, s))"

text \<open>
  What \<^verbatim>\<open>environment_callback\<close> writes through its data pointer: a log function, a
  boolean, a string, or a null variable value.
\<close>

datatype env_reply =
    No_reply | Log_interface | Reply_bool bool | Reply_string string | Variable_null

definition dir_or_dot :: "string \<Rightarrow> string" where
  "dir_or_dot d = (if d \<noteq> [] then d else ''.'')"

text \<open>
  \<^verbatim>\<open>environment_callback\<close>, the cases of the switch in their order. The result is
  the returned flag, what was written through the data pointer, and the state.
\<close>

definition environment_callback :: "uint \<Rightarrow> cint \<Rightarrow> state \<Rightarrow> (bool \<times> env_reply) \<times> state" where
  "environment_callback cmd arg s =
     (if cmd = RETRO_ENVIRONMENT_GET_LOG_INTERFACE then ((True, Log_interface), s)
      else if cmd = RETRO_ENVIRONMENT_GET_CAN_DUPE then ((True, Reply_bool True), s)
      else if cmd = RETRO_ENVIRONMENT_SET_PIXEL_FORMAT
        then ((True, No_reply), s\<lparr>pixel_format := arg\<rparr>)
      else if cmd = RETRO_ENVIRONMENT_GET_SYSTEM_DIRECTORY
        then ((True, Reply_string (dir_or_dot (system_directory s))), s)
      else if cmd = RETRO_ENVIRONMENT_GET_SAVE_DIRECTORY
        then ((True, Reply_string (dir_or_dot (save_directory s))), s)
      else if cmd = RETRO_ENVIRONMENT_GET_CORE_ASSETS_DIRECTORY
        then ((True, Reply_string (dir_or_dot (system_directory s))), s)
      else if cmd = RETRO_ENVIRONMENT_SET_SUPPORT_NO_GAME then ((True, No_reply), s)
      else if cmd = RETRO_ENVIRONMENT_GET_VARIABLE then ((False, Variable_null), s)
      else if cmd = RETRO_ENVIRONMENT_SET_VARIABLES
              \<or> cmd = RETRO_ENVIRONMENT_SET_CORE_OPTIONS_V2 then ((True, No_reply), s)
      else if cmd = RETRO_ENVIRONMENT_GET_VARIABLE_UPDATE then ((True, Reply_bool False), s)
      else ((False, No_reply), s))"

text \<open>
  The module calls back while one of its entries runs; the values the callbacks return
  go to the module and are dropped here.
\<close>

fun invoke :: "env \<Rightarrow> callback \<Rightarrow> state \<Rightarrow> state" where
  "invoke e (Environment cmd arg) s = snd (environment_callback cmd arg s)"
| "invoke e (Video_refresh data width height pitch) s =
     video_refresh_callback e data width height pitch s"
| "invoke e (Audio_sample left right) s = audio_sample_callback left right s"
| "invoke e (Audio_sample_batch data frames) s =
     snd (audio_sample_batch_callback data frames s)"

definition run_callbacks :: "env \<Rightarrow> callback list \<Rightarrow> state \<Rightarrow> state" where
  "run_callbacks e cbs s = fold (invoke e) cbs s"

subsection \<open>Core loading\<close>

text \<open>
  \<^verbatim>\<open>libretro_unload_game\<close>: one guard around both the call into the module and the
  clearing of the flag.
\<close>

definition libretro_unload_game :: "state \<Rightarrow> state" where
  "libretro_unload_game s =
     (if core_handle s \<noteq> None \<and> retro_unload_game (core s) \<and> game_loaded s
      then (emit (Call Unload_game) s)\<lparr>game_loaded := False\<rparr>
      else s)"

text \<open>
  \<^verbatim>\<open>libretro_unload_core\<close>. The 21 function pointers are not cleared; they keep
  their last values behind a null handle.
\<close>

definition libretro_unload_core :: "state \<Rightarrow> state" where
  "libretro_unload_core s =
     (let s1 = (if game_loaded s then libretro_unload_game s else s);
          s2 = (if core_handle s1 \<noteq> None
                then (let s1a = (if retro_deinit (core s1) then emit (Call Deinit) s1 else s1)
                      in (emit Dlclose s1a)\<lparr>core_handle := None\<rparr>)
                else s1);
          s3 = (emit (Free_bytes (framebuffer s2)) s2)
                 \<lparr>framebuffer := None, framebuffer_size := 0\<rparr>;
          s4 = (emit (Free_samples (audio_buffer s3)) s3)\<lparr>audio_buffer := None\<rparr>
      in s4\<lparr>system_info := zero_system_info\<rparr>)"

text \<open>The test \<^verbatim>\<open>!core_init || !core_deinit || !core_run || !core_load_game\<close>.\<close>

definition missing_required :: "module \<Rightarrow> bool" where
  "missing_required m =
     (retro_init m = None \<or> \<not> retro_deinit m \<or> retro_run m = None \<or> retro_load_game m = None)"

text \<open>
  The five registrations after \<^verbatim>\<open>core_init()\<close>, each made only when the module
  exports the setter.
\<close>

definition set_remaining_callbacks :: "state \<Rightarrow> state" where
  "set_remaining_callbacks s =
     (let s1 = (if retro_set_video_refresh (core s) then emit (Call Set_video_refresh) s else s);
          s2 = (if retro_set_audio_sample (core s1) then emit (Call Set_audio_sample) s1 else s1);
          s3 = (if retro_set_audio_sample_batch (core s2)
                then emit (Call Set_audio_sample_batch) s2 else s2);
          s4 = (if retro_set_input_poll (core s3) then emit (Call Set_input_poll) s3 else s3)
      in if retro_set_input_state (core s4) then emit (Call Set_input_state) s4 else s4)"

text \<open>
  \<^verbatim>\<open>libretro_load_core\<close>. \<^verbatim>\<open>LOAD_SYM\<close> copies the module's export table into the
  21 statics. The audio buffer is requested as \<open>MAX_AUDIO_FRAMES * 2 * sizeof(int16_t)\<close>
  bytes and the result of the request is stored unchecked.
\<close>

definition libretro_load_core :: "env \<Rightarrow> string \<Rightarrow> state \<Rightarrow> bool \<times> state" where
  "libretro_load_core e path s =
     (let s0 = (if core_handle s \<noteq> None then libretro_unload_core s else s);
          s1 = (emit (Dlopen path) s0)\<lparr>core_handle := dlopen e path\<rparr>
      in case core_handle s1 of
           None \<Rightarrow> (False, s1)
         | Some m \<Rightarrow>
             let s2 = s1\<lparr>core := m\<rparr>
             in if missing_required (core s2)
                then (False, (emit Dlclose s2)\<lparr>core_handle := None\<rparr>)
                else
                  let s3 = (if retro_set_environment (core s2)
                            then emit (Call Set_environment) s2 else s2);
                      s4 = (case retro_init (core s3) of
                              None \<Rightarrow> s3
                            | Some cbs \<Rightarrow> run_callbacks e cbs (emit (Call Init) s3));
                      s5 = set_remaining_callbacks s4;
                      s6 = (case retro_get_system_info (core s5) of
                              None \<Rightarrow> s5
                            | Some info \<Rightarrow> (emit (Call Get_system_info) s5)\<lparr>system_info := info\<rparr>)
                  in (True, (emit (Malloc (MAX_AUDIO_FRAMES * 2 * 2)) s6)
                              \<lparr>audio_buffer := malloc16 e (MAX_AUDIO_FRAMES * 2 * 2)\<rparr>))"

definition libretro_is_loaded :: "state \<Rightarrow> bool" where
  "libretro_is_loaded s = (core_handle s \<noteq> None)"

subsection \<open>Game management\<close>

text \<open>
  \<^verbatim>\<open>libretro_load_game\<close>. The content file that the host reads for a module without
  \<^verbatim>\<open>need_fullpath\<close> is handed to the module and freed again; it leaves no mark on the
  statics, so the module's answer is taken as a function of the path, and the temporary
  block that held the file is not listed among the calls that leave the host.
\<close>

definition libretro_load_game :: "env \<Rightarrow> string \<Rightarrow> state \<Rightarrow> bool \<times> state" where
  "libretro_load_game e path s =
     (if core_handle s = None then (False, s)
      else case retro_load_game (core s) of
        None \<Rightarrow> (False, s)
      | Some load \<Rightarrow>
          let s1 = run_callbacks e (fst (load path)) (emit (Call (Load_game path)) s);
              result = snd (load path)
          in if result
             then
               let s2 = s1\<lparr>game_loaded := True\<rparr>;
                   s3 = (case retro_get_system_av_info (core s2) of
                           None \<Rightarrow> s2
                         | Some av \<Rightarrow>
                             (emit (Call Get_system_av_info) s2)
                               \<lparr>video_width := base_width av, video_height := base_height av,
                                video_fps := fps av, audio_sample_rate := sample_rate av\<rparr>)
               in (result,
                   if retro_set_controller_port_device (core s3)
                   then emit (Call (Set_controller_port_device 1 RETRO_DEVICE_JOYPAD))
                          (emit (Call (Set_controller_port_device 0 RETRO_DEVICE_JOYPAD)) s3)
                   else s3)
             else (result, s1))"

definition libretro_is_game_loaded :: "state \<Rightarrow> bool" where
  "libretro_is_game_loaded s = game_loaded s"

subsection \<open>Emulation control\<close>

definition libretro_run_frame :: "env \<Rightarrow> state \<Rightarrow> state" where
  "libretro_run_frame e s =
     (if core_handle s \<noteq> None \<and> game_loaded s
      then (case retro_run (core s) of
              None \<Rightarrow> s
            | Some cbs \<Rightarrow> run_callbacks e cbs (emit (Call Run) (s\<lparr>audio_frames := 0\<rparr>)))
      else s)"

definition libretro_reset :: "state \<Rightarrow> state" where
  "libretro_reset s =
     (if core_handle s \<noteq> None \<and> retro_reset (core s) \<and> game_loaded s
      then emit (Call Reset) s else s)"

subsection \<open>Video and audio accessors\<close>

definition libretro_get_width :: "state \<Rightarrow> uint" where
  "libretro_get_width s = video_width s"

definition libretro_get_height :: "state \<Rightarrow> uint" where
  "libretro_get_height s = video_height s"


definition libretro_get_pixel_format :: "state \<Rightarrow> cint" where
  "libretro_get_pixel_format s = pixel_format s"

definition libretro_get_framebuffer :: "state \<Rightarrow> byte list option" where
  "libretro_get_framebuffer s = framebuffer s"

definition libretro_get_framebuffer_pitch :: "state \<Rightarrow> size_t" where
  "libretro_get_framebuffer_pitch s = video_pitch s"


definition libretro_get_audio_buffer :: "state \<Rightarrow> int16 list option" where
  "libretro_get_audio_buffer s = audio_buffer s"

definition libretro_get_audio_frames :: "state \<Rightarrow> size_t" where
  "libretro_get_audio_frames s = audio_frames s"

definition libretro_clear_audio_buffer :: "state \<Rightarrow> state" where
  "libretro_clear_audio_buffer s = s\<lparr>audio_frames := 0\<rparr>"

subsection \<open>Save states\<close>

text \<open>
  Each of the three returns the module's answer when its guard holds, and 0 or false
  otherwise. The guards are the source's: the size query tests the handle and the
  entry, the other two also test the game flag.
\<close>

definition libretro_get_save_state_size :: "state \<Rightarrow> size_t \<times> state" where
  "libretro_get_save_state_size s =
     (if core_handle s \<noteq> None
      then (case retro_serialize_size (core s) of
              None \<Rightarrow> (0, s)
            | Some n \<Rightarrow> (n, emit (Call Serialize_size) s))
      else (0, s))"

definition libretro_save_state :: "size_t \<Rightarrow> state \<Rightarrow> bool \<times> state" where
  "libretro_save_state sz s =
     (if core_handle s \<noteq> None
      then (case retro_serialize (core s) of
              None \<Rightarrow> (False, s)
            | Some serialize \<Rightarrow>
                if game_loaded s then (serialize sz, emit (Call Serialize) s) else (False, s))
      else (False, s))"

definition libretro_load_state :: "byte list \<Rightarrow> size_t \<Rightarrow> state \<Rightarrow> bool \<times> state" where
  "libretro_load_state buffer sz s =
     (if core_handle s \<noteq> None
      then (case retro_unserialize (core s) of
              None \<Rightarrow> (False, s)
            | Some unserialize \<Rightarrow>
                if game_loaded s then (unserialize buffer sz, emit (Call Unserialize) s)
                else (False, s))
      else (False, s))"

subsection \<open>Paths and initialisation\<close>

text \<open>
  \<^verbatim>\<open>strncpy(dir, path, sizeof(dir) - 1)\<close> into a zeroed array of 4096 characters
  keeps at most 4095 of them; a null path is ignored.
\<close>

definition libretro_set_system_directory :: "string option \<Rightarrow> state \<Rightarrow> state" where
  "libretro_set_system_directory path s =
     (case path of None \<Rightarrow> s | Some p \<Rightarrow> s\<lparr>system_directory := take 4095 p\<rparr>)"

definition libretro_set_save_directory :: "string option \<Rightarrow> state \<Rightarrow> state" where
  "libretro_set_save_directory path s =
     (case path of None \<Rightarrow> s | Some p \<Rightarrow> s\<lparr>save_directory := take 4095 p\<rparr>)"

definition libretro_init :: "state \<Rightarrow> state" where
  "libretro_init s = s\<lparr>pixel_format := RETRO_PIXEL_FORMAT_XRGB8888\<rparr>"

definition libretro_deinit :: "state \<Rightarrow> state" where
  "libretro_deinit s = (if core_handle s \<noteq> None then libretro_unload_core s else s)"

subsection \<open>Lifecycle\<close>

text \<open>
  The three lifecycle states are read off the statics: no handle is Unloaded, a handle
  without the game flag is CoreLoaded, a handle with the game flag is GameLoaded.
\<close>

datatype lifecycle = Unloaded | CoreLoaded | GameLoaded

definition lifecycle_of :: "state \<Rightarrow> lifecycle" where
  "lifecycle_of s =
     (if core_handle s = None then Unloaded
      else if game_loaded s then GameLoaded else CoreLoaded)"

subsection \<open>Sequences of calls and resource ownership\<close>

text \<open>
  The module making one single-sample callback per stereo pair of a list, in order; and
  the samples of such a list as they lie interleaved in the audio buffer.
\<close>

definition single_samples :: "(int16 \<times> int16) list \<Rightarrow> callback list" where
  "single_samples ps = map (\<lambda>p. Audio_sample (fst p) (snd p)) ps"

fun interleave :: "(int16 \<times> int16) list \<Rightarrow> int16 list" where
  "interleave [] = []"
| "interleave (p # ps) = fst p # snd p # interleave ps"

text \<open>
  Both buffers are only ever allocated while a module is loaded (the audio buffer at the
  end of a successful load, the framebuffer by a video callback of the loaded module),
  and \<^verbatim>\<open>libretro_unload_core\<close> frees both: without a handle the host holds no buffer.
\<close>

definition buffers_need_core :: "state \<Rightarrow> bool" where
  "buffers_need_core s =
     (core_handle s = None \<longrightarrow> audio_buffer s = None \<and> framebuffer s = None)"

text \<open>
  The audio queue is in order when the count does not exceed the capacity and the
  buffer, if there is one, has room for 8192 stereo frames.
\<close>

definition audio_queue_ok :: "state \<Rightarrow> bool" where
  "audio_queue_ok s =
     (audio_frames s \<le> MAX_AUDIO_FRAMES
      \<and> (case audio_buffer s of None \<Rightarrow> True | Some buf \<Rightarrow> length buf = 16384))"

text \<open>
  The states the host can be in between two calls of its interface: the initial one, and
  what any modelled operation makes of such a state, with any environment and arguments.
\<close>

inductive reachable :: "state \<Rightarrow> bool" where
  start: "reachable initial_state"
| load_core: "reachable s \<Longrightarrow> reachable (snd (libretro_load_core e path s))"
| unload_core: "reachable s \<Longrightarrow> reachable (libretro_unload_core s)"
| load_game: "reachable s \<Longrightarrow> reachable (snd (libretro_load_game e path s))"
| unload_game: "reachable s \<Longrightarrow> reachable (libretro_unload_game s)"
| run_frame: "reachable s \<Longrightarrow> reachable (libretro_run_frame e s)"
| reset: "reachable s \<Longrightarrow> reachable (libretro_reset s)"
| clear_audio: "reachable s \<Longrightarrow> reachable (libretro_clear_audio_buffer s)"
| save_state_size: "reachable s \<Longrightarrow> reachable (snd (libretro_get_save_state_size s))"
| save_state: "reachable s \<Longrightarrow> reachable (snd (libretro_save_state sz s))"
| load_state: "reachable s \<Longrightarrow> reachable (snd (libretro_load_state buffer sz s))"
| set_system_directory: "reachable s \<Longrightarrow> reachable (libretro_set_system_directory p s)"
| set_save_directory: "reachable s \<Longrightarrow> reachable (libretro_set_save_directory p s)"
| init: "reachable s \<Longrightarrow> reachable (libretro_init s)"
| deinit: "reachable s \<Longrightarrow> reachable (libretro_deinit s)"

subsection \<open>Stub modules and sample states\<close>

text \<open>
  A module that exports exactly the four mandatory entries, each doing nothing, and
  accepts every content; and the same module with a save-state size of 1024 bytes.
\<close>

definition minimal_module :: module where
  "minimal_module = no_module\<lparr>
     retro_init := Some [], retro_deinit := True, retro_run := Some [],
     retro_load_game := Some (\<lambda>path. ([], True)) \<rparr>"

definition sized_module :: module where
  "sized_module = minimal_module\<lparr>retro_serialize_size := Some 1024\<rparr>"

text \<open>The minimal module without its run entry.\<close>

definition norun_module :: module where
  "norun_module = minimal_module\<lparr>retro_run := None\<rparr>"

definition silence16 :: "int16 mem" where
  "silence16 i = 0"

definition black8 :: "byte mem" where
  "black8 i = 0"

text \<open>A loader that knows three images, and an allocator that grants every request.\<close>

definition stub_dlopen :: "string \<Rightarrow> module option" where
  "stub_dlopen path =
     (if path = ''minimal'' then Some minimal_module
      else if path = ''sized'' then Some sized_module
      else if path = ''norun'' then Some norun_module
      else None)"

definition always :: "size_t \<Rightarrow> bool" where
  "always n = True"

definition stub_env :: env where
  "stub_env = \<lparr> dlopen = stub_dlopen, malloc_ok = always,
     fresh8 = black8, fresh16 = silence16 \<rparr>"

text \<open>The same environment with an allocator that refuses every request.\<close>

definition never :: "size_t \<Rightarrow> bool" where
  "never n = False"

definition refusing_env :: env where
  "refusing_env = stub_env\<lparr>malloc_ok := never\<rparr>"

text \<open>The host after loading the module with a save-state size, no game loaded.\<close>

definition core_loaded_sized :: state where
  "core_loaded_sized = snd (libretro_load_core stub_env ''sized'' initial_state)"

text \<open>The host after loading the minimal module and a game into it.\<close>

definition game_loaded_minimal :: state where
  "game_loaded_minimal =
     snd (libretro_load_game stub_env ''rom''
            (snd (libretro_load_core stub_env ''minimal'' initial_state)))"

text \<open>
  An audio buffer of 8192 stereo frames; a queue over it that is empty, and one with
  8142 of its 8192 frames taken.
\<close>

definition silent_buffer :: "int16 list" where
  "silent_buffer = replicate 16384 0"

definition empty_queue :: state where
  "empty_queue = initial_state\<lparr>audio_buffer := Some silent_buffer\<rparr>"


text \<open>Source data for the callbacks, and 8200 stereo pairs.\<close>

definition ramp16 :: "int16 mem" where
  "ramp16 i = of_nat i"

definition ramp8 :: "byte mem" where
  "ramp8 i = of_nat i"

definition burst :: "(int16 \<times> int16) list" where
  "burst = replicate 8200 (1, 2)"

text \<open>
  The host after one frame of one row of four bytes: it holds a framebuffer of four
  bytes.
\<close>

definition one_frame :: state where
  "one_frame = video_refresh_callback stub_env (Some ramp8) 1 1 4 initial_state"


definition huge_pitch :: size_t where
  "huge_pitch = 9223372036854775809"

section \<open>Properties\<close>

lemmas stub_defs = minimal_module_def sized_module_def stub_env_def stub_dlopen_def
  always_def no_module_def initial_state_def libretro_load_core_def libretro_load_game_def
  missing_required_def set_remaining_callbacks_def run_callbacks_def emit_def Let_def
  malloc16_def

lemma emit_fields:
  "core_handle (emit ev s) = core_handle s"
  "game_loaded (emit ev s) = game_loaded s"
  "core (emit ev s) = core s"
  "framebuffer (emit ev s) = framebuffer s"
  "framebuffer_size (emit ev s) = framebuffer_size s"
  "audio_buffer (emit ev s) = audio_buffer s"
  "audio_frames (emit ev s) = audio_frames s"
  by (simp_all add: emit_def)

subsection \<open>Save states\<close>

lemma save_state_needs_game:
  "\<not> game_loaded s \<Longrightarrow> fst (libretro_save_state sz s) = False"
  by (simp add: libretro_save_state_def split: option.splits)

lemma load_state_needs_game:
  "\<not> game_loaded s \<Longrightarrow> fst (libretro_load_state buffer sz s) = False"
  by (simp add: libretro_load_state_def split: option.splits)

lemma save_state_size_unloaded:
  "core_handle s = None \<Longrightarrow> fst (libretro_get_save_state_size s) = 0"
  by (simp add: libretro_get_save_state_size_def)

text \<open>
  Claim C1. The claim asks that all three save-state operations answer 0 or false
  whenever no game is loaded. \<^verbatim>\<open>libretro_save_state\<close> and \<^verbatim>\<open>libretro_load_state\<close>
  test the game flag and do so. \<^verbatim>\<open>libretro_get_save_state_size\<close> does not test it:
  in the CoreLoaded state reached by loading a module that exports the size query, it
  returns the module's 1024, not 0.
\<close>

theorem save_state_size_in_core_loaded:
  "lifecycle_of core_loaded_sized = CoreLoaded
   \<and> \<not> libretro_is_game_loaded core_loaded_sized
   \<and> fst (libretro_get_save_state_size core_loaded_sized) = 1024"
  by (simp add: core_loaded_sized_def stub_defs lifecycle_of_def libretro_is_game_loaded_def
        libretro_get_save_state_size_def)

subsection \<open>Unloading\<close>

lemma unload_game_bound:
  "core_handle s \<noteq> None \<Longrightarrow> game_loaded s \<Longrightarrow> retro_unload_game (core s) \<Longrightarrow>
     lifecycle_of (libretro_unload_game s) = CoreLoaded
     \<and> trace (libretro_unload_game s) = trace s @ [Call Unload_game]"
  by (simp add: libretro_unload_game_def lifecycle_of_def emit_def)

lemma unload_game_unbound:
  "\<not> retro_unload_game (core s) \<Longrightarrow> libretro_unload_game s = s"
  by (simp add: libretro_unload_game_def)

text \<open>
  Claim C2. The claim asks that \<^verbatim>\<open>libretro_unload_game\<close> takes every GameLoaded
  state to CoreLoaded, also when the module does not export unload-content. The flag is
  cleared inside the guard that tests the optional entry: with the minimal module, whose
  export table has no unload-content, the host is GameLoaded before the call and still
  GameLoaded after it.
\<close>

theorem unload_game_without_entry_stays_loaded:
  "lifecycle_of game_loaded_minimal = GameLoaded
   \<and> \<not> retro_unload_game (core game_loaded_minimal)
   \<and> lifecycle_of (libretro_unload_game game_loaded_minimal) = GameLoaded
   \<and> libretro_is_game_loaded (libretro_unload_game game_loaded_minimal)"
  by (simp add: game_loaded_minimal_def stub_defs lifecycle_of_def libretro_is_game_loaded_def
        libretro_unload_game_def)

text \<open>
  Claim C3. The claim asks that "game flag set implies handle non-null" survives every
  host operation for every module. It holds before \<^verbatim>\<open>libretro_unload_core\<close> in the
  GameLoaded state of the minimal module; the unload closes the handle, but the game
  flag, which only \<^verbatim>\<open>libretro_unload_game\<close> clears and only for a module that exports
  unload-content, is still set afterwards.
\<close>

theorem unload_core_leaves_game_flag:
  "game_loaded game_loaded_minimal
   \<and> core_handle game_loaded_minimal \<noteq> None
   \<and> game_loaded (libretro_unload_core game_loaded_minimal)
   \<and> core_handle (libretro_unload_core game_loaded_minimal) = None"
  by (simp add: game_loaded_minimal_def stub_defs libretro_unload_core_def
        libretro_unload_game_def)


subsection \<open>Environment negotiation\<close>

text \<open>
  Claim C8. Whatever 32-bit code comes with set-pixel-format, the negotiator stores it,
  changes nothing else, answers true, and the pixel-format getter returns the code;
  the same holds when the command arrives as a callback made by the module.
\<close>

theorem set_pixel_format_unvalidated:
  "fst (fst (environment_callback RETRO_ENVIRONMENT_SET_PIXEL_FORMAT code s))
   \<and> snd (environment_callback RETRO_ENVIRONMENT_SET_PIXEL_FORMAT code s)
       = s\<lparr>pixel_format := code\<rparr>
   \<and> libretro_get_pixel_format
         (snd (environment_callback RETRO_ENVIRONMENT_SET_PIXEL_FORMAT code s)) = code
   \<and> libretro_get_pixel_format
         (invoke e (Environment RETRO_ENVIRONMENT_SET_PIXEL_FORMAT code) s) = code"
  by (simp add: environment_callback_def libretro_get_pixel_format_def
      RETRO_ENVIRONMENT_SET_PIXEL_FORMAT_def RETRO_ENVIRONMENT_GET_LOG_INTERFACE_def
      RETRO_ENVIRONMENT_GET_CAN_DUPE_def)

subsection \<open>Audio bridge\<close>

text \<open>
  Claim C10. Without an audio buffer the batch callback returns 0 and the single-sample
  callback returns normally, and neither changes the state (so the stored frame count
  and everything else stay as they were).
\<close>

theorem audio_callbacks_without_buffer:
  "audio_buffer s = None \<Longrightarrow>
     audio_sample_batch_callback data frames s = (0, s)
     \<and> audio_sample_callback left right s = s"
  by (simp add: audio_sample_batch_callback_def audio_sample_callback_def)

theorem audio_callbacks_without_buffer_witness:
  "audio_buffer initial_state = None
   \<and> audio_sample_batch_callback ramp16 100 initial_state = (0, initial_state)
   \<and> audio_sample_callback 1 2 initial_state = initial_state"
  using audio_callbacks_without_buffer [of initial_state ramp16 100 1 2]
  by (simp add: initial_state_def)

subsection \<open>Arithmetic of frame counts in \<^verbatim>\<open>size_t\<close>\<close>

lemma unat_le_max_frames: "(c :: size_t) \<le> 8192 \<Longrightarrow> unat c \<le> 8192"
  by (simp add: word_le_nat_alt)

lemma max_frames_word: "(k :: size_t) \<le> 8192 \<longleftrightarrow> unat k \<le> 8192"
  by (simp add: word_le_nat_alt)

lemma unat_frames_sum:
  fixes c frames :: size_t
  assumes "unat c + unat frames < 2 ^ 64"
  shows "unat (c + frames) = unat c + unat frames"
  using assms by (simp add: unat_add_lem[where 'a=64, simplified])

lemma unat_room:
  fixes c :: size_t
  assumes "c \<le> 8192"
  shows "unat (8192 - c) = 8192 - unat c"
  using assms by (simp add: unat_sub)

lemma unat_twice:
  fixes c :: size_t
  assumes "c \<le> 8192"
  shows "unat (c * 2) = 2 * unat c"
proof -
  have "unat c * 2 < 2 ^ 64" using unat_le_max_frames[OF assms] by simp
  then show ?thesis by (simp add: unat_word_ariths)
qed

lemma unat_twice_succ:
  fixes c :: size_t
  assumes "c \<le> 8192"
  shows "unat (c * 2 + 1) = 2 * unat c + 1"
proof -
  have "unat c * 2 + 1 < 2 ^ 64" using unat_le_max_frames[OF assms] by simp
  then show ?thesis by (simp add: unat_word_ariths)
qed

lemma unat_succ_frames:
  fixes c :: size_t
  assumes "c < 8192"
  shows "unat (c + 1) = unat c + 1"
proof -
  have "unat c < 8192" using assms by (simp add: word_less_nat_alt)
  then have "unat c + 1 < 2 ^ 64" by simp
  then show ?thesis by (simp add: unat_word_ariths)
qed

lemma unat_bytes_div:
  fixes k :: size_t
  assumes "k \<le> 8192"
  shows "unat (k * 2 * 2) div 2 = 2 * unat k"
proof -
  have k: "unat k \<le> 8192" by (rule unat_le_max_frames[OF assms])
  have "unat (k * 2 * 2) = 4 * unat k"
    using k by (simp add: unat_word_ariths)
  then show ?thesis by simp
qed

lemma to_copy_value:
  fixes c frames :: size_t
  assumes "c \<le> 8192" and "unat c + unat frames < 2 ^ 64"
  shows "unat (if c + frames > 8192 then 8192 - c else frames)
           = min (unat frames) (8192 - unat c)"
  using unat_frames_sum[OF assms(2)] unat_room[OF assms(1)] unat_le_max_frames[OF assms(1)]
  by (auto simp: word_less_nat_alt min_def)

lemma length_silent_buffer: "length silent_buffer = 16384"
  by (simp only: silent_buffer_def length_replicate)

lemma length_burst: "length burst = 8200"
  by (simp only: burst_def length_replicate)

subsection \<open>Audio bridge: the batch callback\<close>

text \<open>
  The result of a batch call, for a request that does not make \<open>audio_frames + frames\<close>
  wrap: \<open>c\<close> is the count before the call, \<open>k\<close> the number of frames accepted.
\<close>

lemma batch_callback_result:
  fixes s :: state and data :: "int16 mem" and frames :: size_t
  defines "c \<equiv> unat (audio_frames s)"
  defines "k \<equiv> min (unat frames) (8192 - c)"
  assumes buf: "audio_buffer s = Some buf" and len: "length buf = 16384"
    and cnt: "audio_frames s \<le> MAX_AUDIO_FRAMES"
    and fits: "unat (audio_frames s) + unat frames < 2 ^ 64"
  shows "unat (fst (audio_sample_batch_callback data frames s)) = k
     \<and> snd (audio_sample_batch_callback data frames s) =
         s\<lparr>audio_buffer :=
             Some (take (2 * c) buf @ map data [0..<2 * k] @ drop (2 * c + 2 * k) buf),
           audio_frames := of_nat (c + k)\<rparr>
     \<and> unat (audio_frames (snd (audio_sample_batch_callback data frames s))) = c + k
     \<and> length (take (2 * c) buf @ map data [0..<2 * k] @ drop (2 * c + 2 * k) buf) = 16384"
proof -
  define to_copy :: size_t where
    "to_copy = (if audio_frames s + frames > MAX_AUDIO_FRAMES
                then MAX_AUDIO_FRAMES - audio_frames s else frames)"
  have cle: "audio_frames s \<le> 8192" using cnt by (simp add: MAX_AUDIO_FRAMES_def)
  have c8: "c \<le> 8192" unfolding c_def by (rule unat_le_max_frames[OF cle])
  have tk: "unat to_copy = k"
    unfolding to_copy_def k_def c_def MAX_AUDIO_FRAMES_def by (rule to_copy_value[OF cle fits])
  have kle: "c + k \<le> 8192" using c8 by (simp add: k_def)
  have tle: "to_copy \<le> 8192" using tk kle by (simp add: max_frames_word)
  have off: "unat (audio_frames s * 2) = 2 * c"
    unfolding c_def by (rule unat_twice[OF cle])
  have cnt2: "unat (to_copy * 2 * 2) div 2 = 2 * k"
    using unat_bytes_div[OF tle] tk by simp
  have sum: "audio_frames s + to_copy = of_nat (c + k)"
    by (simp add: c_def tk[symmetric])
  have usum: "unat (of_nat (c + k) :: size_t) = c + k"
  proof -
    have "c + k < 2 ^ LENGTH(64)" using kle by simp
    then show ?thesis by (simp only: unat_of_nat mod_less)
  qed
  have pos: "to_copy > 0 \<longleftrightarrow> k > 0"
    unfolding tk[symmetric] by (simp add: word_greater_zero_iff unat_gt_0)
  have same: "k = 0 \<Longrightarrow>
      s\<lparr>audio_buffer :=
          Some (take (2 * c) buf @ map data [0..<2 * k] @ drop (2 * c + 2 * k) buf),
        audio_frames := of_nat (c + k)\<rparr> = s"
    using buf by (simp add: c_def)
  have r: "audio_sample_batch_callback data frames s =
      (if to_copy > 0
       then (to_copy, s\<lparr>audio_buffer := Some (memcpy buf (2 * c) data (2 * k)),
                audio_frames := of_nat (c + k)\<rparr>)
       else (to_copy, s))"
    unfolding audio_sample_batch_callback_def Let_def buf option.case to_copy_def[symmetric]
      off cnt2 sum by (rule refl)
  have lenr:
    "length (take (2 * c) buf @ map data [0..<2 * k] @ drop (2 * c + 2 * k) buf) = 16384"
    using len kle by simp
  show ?thesis
  proof (cases "k = 0")
    case True
    then show ?thesis using r pos tk same lenr usum by (simp add: c_def)
  next
    case False
    then show ?thesis using r pos tk lenr usum by (simp add: memcpy_def c_def)
  qed
qed




subsection \<open>Audio bridge: the single-sample callback\<close>

lemma take_pair_update:
  assumes "n + 1 < length xs"
  shows "take (n + 2) (xs[n := l, n + 1 := r]) = take n xs @ [l, r]"
proof -
  have "take (Suc (Suc n)) (xs[n := l, Suc n := r])
          = take (Suc n) (xs[n := l, Suc n := r]) @ [r]"
    using assms by (simp add: take_Suc_conv_app_nth)
  also have "take (Suc n) (xs[n := l, Suc n := r]) = take n xs @ [l]"
    using assms by (simp add: take_Suc_conv_app_nth)
  finally show ?thesis by simp
qed

lemma audio_sample_step:
  assumes buf: "audio_buffer s = Some buf" and len: "length buf = 16384"
    and room: "audio_frames s < MAX_AUDIO_FRAMES"
  shows "audio_sample_callback l r s =
           s\<lparr>audio_buffer := Some (buf[2 * unat (audio_frames s) := l,
                                       2 * unat (audio_frames s) + 1 := r]),
             audio_frames := audio_frames s + 1\<rparr>"
proof -
  have "audio_frames s \<le> 8192" using room by (simp add: MAX_AUDIO_FRAMES_def)
  then show ?thesis
    using buf room by (simp add: audio_sample_callback_def unat_twice unat_twice_succ)
qed

lemma audio_sample_full:
  "\<not> audio_frames s < MAX_AUDIO_FRAMES \<Longrightarrow> audio_sample_callback l r s = s"
  by (simp add: audio_sample_callback_def)

lemma audio_sample_count:
  "unat (audio_frames (audio_sample_callback l r t)) =
     (if audio_frames t < MAX_AUDIO_FRAMES \<and> audio_buffer t \<noteq> None
      then unat (audio_frames t) + 1 else unat (audio_frames t))"
  by (auto simp: audio_sample_callback_def MAX_AUDIO_FRAMES_def unat_succ_frames
           split: option.splits)

lemma single_samples_fill:
  assumes "audio_buffer s = Some buf" and "length buf = 16384"
    and "audio_frames s \<le> MAX_AUDIO_FRAMES"
  shows "unat (audio_frames (run_callbacks e (single_samples ps) s))
           = min (unat (audio_frames s) + length ps) 8192
       \<and> map_option length (audio_buffer (run_callbacks e (single_samples ps) s)) = Some 16384
       \<and> map_option (take (2 * min (unat (audio_frames s) + length ps) 8192))
            (audio_buffer (run_callbacks e (single_samples ps) s))
           = Some (take (2 * unat (audio_frames s)) buf
                     @ interleave (take (8192 - unat (audio_frames s)) ps))"
  using assms
proof (induction ps arbitrary: s buf)
  case Nil
  then show ?case
    by (simp add: run_callbacks_def single_samples_def MAX_AUDIO_FRAMES_def max_frames_word)
next
  case (Cons p ps)
  let ?c = "unat (audio_frames s)"
  have c8: "?c \<le> 8192" using Cons.prems(3) by (simp add: MAX_AUDIO_FRAMES_def max_frames_word)
  have unfold: "run_callbacks e (single_samples (p # ps)) s
      = run_callbacks e (single_samples ps) (audio_sample_callback (fst p) (snd p) s)"
    by (simp add: run_callbacks_def single_samples_def)
  show ?case
  proof (cases "audio_frames s < MAX_AUDIO_FRAMES")
    case True
    let ?buf1 = "buf[2 * ?c := fst p, 2 * ?c + 1 := snd p]"
    let ?s1 = "audio_sample_callback (fst p) (snd p) s"
    have lt: "?c < 8192" using True by (simp add: MAX_AUDIO_FRAMES_def word_less_nat_alt)
    have s1: "?s1 = s\<lparr>audio_buffer := Some ?buf1, audio_frames := audio_frames s + 1\<rparr>"
      by (rule audio_sample_step[OF Cons.prems(1,2) True])
    have b1: "audio_buffer ?s1 = Some ?buf1" by (simp add: s1)
    have l1: "length ?buf1 = 16384" using Cons.prems(2) by simp
    have u1: "unat (audio_frames ?s1) = ?c + 1"
      using True by (simp add: s1 unat_succ_frames MAX_AUDIO_FRAMES_def)
    have f1: "audio_frames ?s1 \<le> MAX_AUDIO_FRAMES"
      using lt u1 by (simp add: MAX_AUDIO_FRAMES_def max_frames_word)
    have tk: "take (2 * (?c + 1)) ?buf1 = take (2 * ?c) buf @ [fst p, snd p]"
      using take_pair_update[of "2 * ?c" buf "fst p" "snd p"] lt Cons.prems(2) by simp
    have "8192 - ?c = Suc (8192 - (?c + 1))" using lt by arith
    then have dr: "take (8192 - ?c) (p # ps) = p # take (8192 - (?c + 1)) ps"
      by (simp only: take_Suc_Cons)
    show ?thesis
      using Cons.IH[OF b1 l1 f1] unfolding unfold u1 tk dr by simp
  next
    case False
    have full: "?c = 8192"
      using False c8 by (simp add: MAX_AUDIO_FRAMES_def word_less_nat_alt)
    have same: "audio_sample_callback (fst p) (snd p) s = s"
      by (rule audio_sample_full[OF False])
    show ?thesis
      using Cons.IH[OF Cons.prems] unfolding unfold same full by simp
  qed
qed

text \<open>
  Claim C6. One single-sample call raises the stored count by one exactly when the count
  is below 8192 and there is a buffer, and leaves it otherwise. Starting from an empty
  queue over an allocated buffer of 8192 frames, the calls for a list of \<open>n\<close> stereo
  pairs leave \<open>min n 8192\<close> frames stored, the buffer still 8192 frames long, and its
  first \<open>min n 8192\<close> frames are the first 8192 pairs of the list, in order.
\<close>

theorem single_samples_saturate:
  assumes "audio_buffer s = Some buf" and "length buf = 16384" and "audio_frames s = 0"
  shows "unat (audio_frames (audio_sample_callback l r t)) =
           (if audio_frames t < MAX_AUDIO_FRAMES \<and> audio_buffer t \<noteq> None
            then unat (audio_frames t) + 1 else unat (audio_frames t))
     \<and> unat (libretro_get_audio_frames (run_callbacks e (single_samples ps) s))
           = min (length ps) 8192
     \<and> map_option length (libretro_get_audio_buffer (run_callbacks e (single_samples ps) s))
           = Some 16384
     \<and> map_option (take (2 * min (length ps) 8192))
            (libretro_get_audio_buffer (run_callbacks e (single_samples ps) s))
           = Some (interleave (take 8192 ps))"
proof -
  have le: "audio_frames s \<le> MAX_AUDIO_FRAMES"
    using assms(3) by (simp add: MAX_AUDIO_FRAMES_def)
  show ?thesis
    using single_samples_fill[OF assms(1,2) le, of e ps] assms(3) audio_sample_count[of l r t]
    by (simp add: libretro_get_audio_frames_def libretro_get_audio_buffer_def)
qed

theorem single_samples_saturate_witness:
  "audio_buffer empty_queue = Some silent_buffer
   \<and> length silent_buffer = 16384
   \<and> audio_frames empty_queue = 0
   \<and> length burst = 8200
   \<and> unat (libretro_get_audio_frames (run_callbacks stub_env (single_samples burst) empty_queue))
       = 8192"
proof -
  have b: "audio_buffer empty_queue = Some silent_buffer"
    by (simp add: empty_queue_def)
  have z: "audio_frames empty_queue = 0"
    by (simp add: empty_queue_def initial_state_def)
  show ?thesis
    using single_samples_saturate [OF b length_silent_buffer z, of 0 0 empty_queue stub_env burst]
      b z length_silent_buffer length_burst
    by simp
qed

subsection \<open>Video bridge\<close>

text \<open>
  Claim C4 as stated fails in two ways. When the allocator refuses the request (data
  non-null, \<open>2 * 8 = 16\<close> above the capacity 0), no buffer is allocated and no byte is
  copied. And the size is formed in \<^verbatim>\<open>size_t\<close>: for a height of 2 and a pitch of
  \<open>2 ^ 63 + 1\<close> the product \<open>2 ^ 64 + 2\<close> wraps to 2, and the buffer allocated and the
  bytes copied are the first 2, not height times pitch.
\<close>

theorem video_refresh_alloc_refused:
  "framebuffer_size initial_state < ucast (2 :: uint) * 8
   \<and> libretro_get_framebuffer
        (video_refresh_callback refusing_env (Some ramp8) 4 2 8 initial_state) = None
   \<and> unat (framebuffer_size initial_state) < unat (2 :: uint) * unat huge_pitch
   \<and> unat (2 :: uint) * unat huge_pitch = 18446744073709551618
   \<and> libretro_get_framebuffer
        (video_refresh_callback stub_env (Some ramp8) 4 2 huge_pitch initial_state)
       = Some (map ramp8 [0..<2])
   \<and> length (map ramp8 [0..<2]) = 2"
  by (simp add: initial_state_def refusing_env_def stub_env_def never_def always_def
        huge_pitch_def emit_def memcpy_def
        video_refresh_callback_def Let_def malloc8_def libretro_get_framebuffer_def)

text \<open>
  Claim C4, amended. Let \<open>required\<close> be \<open>height * pitch\<close> as \<^verbatim>\<open>size_t\<close> forms it
  (modulo \<open>2 ^ 64\<close>). For a call with non-null data whose \<open>required\<close> exceeds the
  recorded capacity \<^verbatim>\<open>framebuffer_size\<close>, the stored width, height and pitch become
  the arguments of the call, the old storage is released, a block of \<open>required\<close> bytes is
  requested, and \<open>required\<close> becomes the recorded capacity. If the request is granted,
  the framebuffer is that block, exactly \<open>required\<close> bytes long, holding the first
  \<open>required\<close> bytes of the data unchanged. If it is refused, the framebuffer is null and
  nothing is copied.
\<close>

theorem video_refresh_grows:
  assumes "framebuffer_size s < ucast height * pitch"
  shows "libretro_get_width (video_refresh_callback e (Some src) width height pitch s) = width
     \<and> libretro_get_height (video_refresh_callback e (Some src) width height pitch s) = height
     \<and> libretro_get_framebuffer_pitch
          (video_refresh_callback e (Some src) width height pitch s) = pitch
     \<and> trace (video_refresh_callback e (Some src) width height pitch s)
          = trace s @ [Free_bytes (framebuffer s), Malloc (ucast height * pitch)]
     \<and> framebuffer_size (video_refresh_callback e (Some src) width height pitch s)
          = ucast height * pitch
     \<and> libretro_get_framebuffer (video_refresh_callback e (Some src) width height pitch s) =
         (if malloc_ok e (ucast height * pitch)
          then Some (map src [0..<unat (ucast height * pitch :: size_t)]) else None)
     \<and> length (map src [0..<unat (ucast height * pitch :: size_t)])
          = unat (ucast height * pitch :: size_t)"
  using assms
  by (simp add: video_refresh_callback_def Let_def malloc8_def memcpy_def emit_def
        libretro_get_width_def libretro_get_height_def libretro_get_framebuffer_pitch_def
        libretro_get_framebuffer_def)

lemma one_frame_holds_buffer:
  "framebuffer one_frame = Some (map ramp8 [0..<4]) \<and> framebuffer_size one_frame = 4"
  by (simp add: one_frame_def initial_state_def stub_env_def always_def emit_def
        memcpy_def video_refresh_callback_def Let_def malloc8_def)

theorem video_refresh_grows_witness:
  "framebuffer one_frame = Some (map ramp8 [0..<4])
   \<and> framebuffer_size one_frame < ucast (2 :: uint) * 8
   \<and> trace (video_refresh_callback stub_env (Some ramp8) 4 2 8 one_frame)
       = trace one_frame @ [Free_bytes (Some (map ramp8 [0..<4])), Malloc 16]
   \<and> libretro_get_framebuffer (video_refresh_callback stub_env (Some ramp8) 4 2 8 one_frame)
       = Some (map ramp8 [0..<16])
   \<and> libretro_get_width (video_refresh_callback stub_env (Some ramp8) 4 2 8 one_frame) = 4"
  using video_refresh_grows [of one_frame 2 8 stub_env ramp8 4] one_frame_holds_buffer
  by (simp add: stub_env_def always_def)

text \<open>
  After a refused request the recorded capacity stands while the framebuffer is null:
  a later frame that does not exceed it makes no request and copies nothing.
\<close>

lemma video_refresh_within_recorded_capacity:
  assumes "\<not> framebuffer_size s < ucast height * pitch" and "framebuffer s = None"
  shows "framebuffer (video_refresh_callback e (Some src) width height pitch s) = None
     \<and> trace (video_refresh_callback e (Some src) width height pitch s) = trace s
     \<and> framebuffer_size (video_refresh_callback e (Some src) width height pitch s)
          = framebuffer_size s"
  using assms by (simp add: video_refresh_callback_def Let_def)

subsection \<open>Loading a module\<close>

text \<open>
  Claim C7. When the loader finds a module at the path, \<^verbatim>\<open>libretro_load_core\<close>
  fails exactly when one of the four mandatory entries is missing, whatever optional
  entries are missing. When it fails for that reason, the handle it opened has been
  closed (the last two calls that left the host are the open and the close), the handle
  is null, the host is Unloaded and holds neither an audio buffer nor a framebuffer.
\<close>

theorem load_core_required_entries:
  assumes "dlopen e path = Some m" and "buffers_need_core s"
  shows "fst (libretro_load_core e path s) = (\<not> missing_required m)
     \<and> (missing_required m \<longrightarrow>
          core_handle (snd (libretro_load_core e path s)) = None
          \<and> \<not> libretro_is_loaded (snd (libretro_load_core e path s))
          \<and> lifecycle_of (snd (libretro_load_core e path s)) = Unloaded
          \<and> audio_buffer (snd (libretro_load_core e path s)) = None
          \<and> framebuffer (snd (libretro_load_core e path s)) = None
          \<and> trace (snd (libretro_load_core e path s))
              = trace (if core_handle s \<noteq> None then libretro_unload_core s else s)
                  @ [Dlopen path, Dlclose])"
proof (cases "core_handle s = None")
  case True
  then show ?thesis
    using assms
    by (simp add: libretro_load_core_def Let_def emit_def buffers_need_core_def
          libretro_is_loaded_def lifecycle_of_def)
next
  case False
  then show ?thesis
    using assms(1)
    by (simp add: libretro_load_core_def Let_def emit_def libretro_unload_core_def
          libretro_unload_game_def libretro_is_loaded_def lifecycle_of_def)
qed

theorem load_core_required_entries_witness:
  "dlopen stub_env ''norun'' = Some norun_module
   \<and> buffers_need_core initial_state
   \<and> missing_required norun_module
   \<and> fst (libretro_load_core stub_env ''norun'' initial_state) = False
   \<and> lifecycle_of (snd (libretro_load_core stub_env ''norun'' initial_state)) = Unloaded
   \<and> audio_buffer (snd (libretro_load_core stub_env ''norun'' initial_state)) = None"
  using load_core_required_entries [of stub_env "''norun''" norun_module initial_state]
  by (simp add: stub_env_def stub_dlopen_def norun_module_def minimal_module_def no_module_def
        buffers_need_core_def initial_state_def missing_required_def)

section \<open>Invariants behind the hypotheses\<close>

subsection \<open>No buffer without a handle\<close>

text \<open>
  No callback touches the handle, so a module that is called keeps the host loaded for
  the duration of the call.
\<close>

lemma core_handle_emit: "core_handle (emit ev s) = core_handle s"
  by (simp add: emit_def)

lemma core_handle_environment:
  "core_handle (snd (environment_callback cmd arg s)) = core_handle s"
  by (simp add: environment_callback_def)

lemma core_handle_video:
  "core_handle (video_refresh_callback e data width height pitch s) = core_handle s"
  by (simp add: video_refresh_callback_def Let_def emit_fields split: option.splits)

lemma core_handle_audio_sample:
  "core_handle (audio_sample_callback l r s) = core_handle s"
  by (simp add: audio_sample_callback_def split: option.splits)

lemma core_handle_audio_batch:
  "core_handle (snd (audio_sample_batch_callback data frames s)) = core_handle s"
  by (simp add: audio_sample_batch_callback_def Let_def split: option.splits)

lemma core_handle_invoke: "core_handle (invoke e cb s) = core_handle s"
  by (cases cb)
     (simp_all add: core_handle_environment core_handle_video core_handle_audio_sample
        core_handle_audio_batch)

lemma core_handle_run_callbacks: "core_handle (run_callbacks e cbs s) = core_handle s"
  unfolding run_callbacks_def
  by (induction cbs arbitrary: s) (simp_all add: core_handle_invoke)

lemma core_handle_set_remaining: "core_handle (set_remaining_callbacks s) = core_handle s"
  by (simp add: set_remaining_callbacks_def Let_def core_handle_emit)

lemma buffers_need_core_loaded: "core_handle s \<noteq> None \<Longrightarrow> buffers_need_core s"
  by (auto simp: buffers_need_core_def)

lemma buffers_need_core_initial: "buffers_need_core initial_state"
  by (simp add: buffers_need_core_def initial_state_def)

lemma buffers_need_core_unload_core: "buffers_need_core (libretro_unload_core s)"
  by (simp add: buffers_need_core_def libretro_unload_core_def Let_def emit_fields)

lemma buffers_need_core_unload_game:
  "buffers_need_core s \<Longrightarrow> buffers_need_core (libretro_unload_game s)"
  by (simp add: buffers_need_core_def libretro_unload_game_def emit_def)

lemma core_handle_load_core_success:
  "fst (libretro_load_core e path s) \<Longrightarrow>
     core_handle (snd (libretro_load_core e path s)) = dlopen e path \<and> dlopen e path \<noteq> None"
  by (auto simp: libretro_load_core_def Let_def core_handle_emit core_handle_run_callbacks
        core_handle_set_remaining split: option.splits if_splits)

lemma buffers_need_core_load_core:
  assumes "buffers_need_core s"
  shows "buffers_need_core (snd (libretro_load_core e path s))"
proof (cases "fst (libretro_load_core e path s)")
  case True
  then show ?thesis
    using core_handle_load_core_success[OF True] by (auto intro: buffers_need_core_loaded)
next
  case False
  define s0 where "s0 = (if core_handle s \<noteq> None then libretro_unload_core s else s)"
  have s0: "audio_buffer s0 = None \<and> framebuffer s0 = None"
    using assms
    by (cases "core_handle s = None")
       (simp_all add: s0_def buffers_need_core_def libretro_unload_core_def Let_def
          emit_fields)
  have "audio_buffer (snd (libretro_load_core e path s)) = None
        \<and> framebuffer (snd (libretro_load_core e path s)) = None"
    using False s0 unfolding libretro_load_core_def s0_def[symmetric]
    by (auto simp: Let_def emit_def split: option.splits if_splits)
  then show ?thesis by (simp add: buffers_need_core_def)
qed

lemma core_handle_load_game:
  "core_handle (snd (libretro_load_game e path s)) = core_handle s"
  by (simp add: libretro_load_game_def Let_def core_handle_emit core_handle_run_callbacks
        split: option.splits)

lemma buffers_need_core_load_game:
  assumes "buffers_need_core s"
  shows "buffers_need_core (snd (libretro_load_game e path s))"
proof (cases "core_handle s = None")
  case True
  then show ?thesis using assms by (simp add: libretro_load_game_def)
next
  case False
  then show ?thesis
    by (simp add: buffers_need_core_loaded core_handle_load_game)
qed

lemma buffers_need_core_run_frame:
  assumes "buffers_need_core s"
  shows "buffers_need_core (libretro_run_frame e s)"
proof (cases "core_handle s = None")
  case True
  then show ?thesis using assms by (simp add: libretro_run_frame_def)
next
  case False
  then have "core_handle (libretro_run_frame e s) \<noteq> None"
    by (simp add: libretro_run_frame_def core_handle_run_callbacks core_handle_emit
          split: option.splits)
  then show ?thesis by (rule buffers_need_core_loaded)
qed

lemma buffers_need_core_simple:
  assumes "buffers_need_core s"
  shows "buffers_need_core (libretro_reset s)"
    and "buffers_need_core (libretro_clear_audio_buffer s)"
    and "buffers_need_core (snd (libretro_get_save_state_size s))"
    and "buffers_need_core (snd (libretro_save_state sz s))"
    and "buffers_need_core (snd (libretro_load_state buffer sz s))"
    and "buffers_need_core (libretro_set_system_directory p s)"
    and "buffers_need_core (libretro_set_save_directory p s)"
    and "buffers_need_core (libretro_init s)"
    and "buffers_need_core (libretro_deinit s)"
  using assms
  by (simp_all add: buffers_need_core_def libretro_reset_def libretro_clear_audio_buffer_def
        libretro_get_save_state_size_def libretro_save_state_def libretro_load_state_def
        libretro_set_system_directory_def libretro_set_save_directory_def libretro_init_def
        libretro_deinit_def libretro_unload_core_def Let_def emit_def split: option.splits)

text \<open>Every state the host can be in between two calls holds no buffer without a handle.\<close>

lemma reachable_buffers_need_core: "reachable s \<Longrightarrow> buffers_need_core s"
proof (induction rule: reachable.induct)
  case start
  show ?case by (rule buffers_need_core_initial)
qed (simp_all add: buffers_need_core_load_core buffers_need_core_unload_core
       buffers_need_core_load_game buffers_need_core_unload_game buffers_need_core_run_frame
       buffers_need_core_simple)

subsection \<open>The audio queue stays in order\<close>

text \<open>
  The queue is in order initially; both audio callbacks keep it so, the batch callback
  for requests whose sum with the count does not wrap; and a successful load whose
  allocation is granted installs a buffer of 8192 stereo frames.
\<close>

lemma audio_queue_ok_initial: "audio_queue_ok initial_state"
  by (simp add: audio_queue_ok_def initial_state_def MAX_AUDIO_FRAMES_def)

lemma audio_queue_ok_audio_sample:
  assumes "audio_queue_ok s"
  shows "audio_queue_ok (audio_sample_callback l r s)"
proof (cases "audio_frames s < MAX_AUDIO_FRAMES")
  case True
  then have "unat (audio_frames s + 1) \<le> 8192"
    using unat_succ_frames[of "audio_frames s"]
    by (simp add: MAX_AUDIO_FRAMES_def word_less_nat_alt)
  then show ?thesis
    using assms
    by (simp add: audio_queue_ok_def audio_sample_callback_def MAX_AUDIO_FRAMES_def
          max_frames_word split: option.splits)
next
  case False
  then show ?thesis using assms by (simp add: audio_sample_full)
qed

lemma audio_queue_ok_audio_batch:
  assumes "audio_queue_ok s" and "unat (audio_frames s) + unat frames < 2 ^ 64"
  shows "audio_queue_ok (snd (audio_sample_batch_callback data frames s))"
proof (cases "audio_buffer s")
  case None
  then show ?thesis using assms(1) by (simp add: audio_sample_batch_callback_def)
next
  case (Some buf)
  have len: "length buf = 16384" and cnt: "audio_frames s \<le> MAX_AUDIO_FRAMES"
    using assms(1) Some by (simp_all add: audio_queue_ok_def)
  let ?r = "snd (audio_sample_batch_callback data frames s)"
  let ?c = "unat (audio_frames s)"
  let ?k = "min (unat frames) (8192 - ?c)"
  let ?buf = "take (2 * ?c) buf @ map data [0..<2 * ?k] @ drop (2 * ?c + 2 * ?k) buf"
  note r = batch_callback_result[OF Some len cnt assms(2), of data]
  have st: "?r = s\<lparr>audio_buffer := Some ?buf, audio_frames := of_nat (?c + ?k)\<rparr>"
    using r by blast
  have u: "unat (audio_frames ?r) = ?c + ?k" using r by blast
  have l: "length ?buf = 16384" using r by blast
  have c8: "?c \<le> 8192"
    using cnt by (simp add: MAX_AUDIO_FRAMES_def max_frames_word)
  have "unat (audio_frames ?r) \<le> 8192" unfolding u using c8 by arith
  then have f: "audio_frames ?r \<le> MAX_AUDIO_FRAMES"
    by (simp add: MAX_AUDIO_FRAMES_def max_frames_word)
  have b: "audio_buffer ?r = Some ?buf" by (subst st) simp
  show ?thesis unfolding audio_queue_ok_def using f b l by simp
qed

lemma load_core_audio_buffer:
  assumes "fst (libretro_load_core e path s)" and "malloc_ok e (MAX_AUDIO_FRAMES * 2 * 2)"
  shows "map_option length (audio_buffer (snd (libretro_load_core e path s))) = Some 16384"
  using assms
  by (auto simp: libretro_load_core_def Let_def malloc16_def MAX_AUDIO_FRAMES_def
        split: option.splits if_splits)

end
